theory Spec2Isabelle
  imports Main "HOL-Library.Sublist"
begin

section \<open>The row formatter of the GitHub add-on file grid\<close>

text \<open>
  Source: \<^verbatim>\<open>website/addons/github/static/hgrid-github.js\<close>. The file declares the
  array \<^verbatim>\<open>extensions\<close> and the function \<^verbatim>\<open>TaskNameFormatter\<close>, which the grid
  widget calls once per row as \<^verbatim>\<open>TaskNameFormatter(row, cell, value, columnDef,
  dataContext)\<close>: \<^verbatim>\<open>dataContext\<close> is the row's item and \<^verbatim>\<open>value\<close> is the field of the
  item that the column names (\<^verbatim>\<open>field: "name"\<close>), so a node without a name arrives
  with \<^verbatim>\<open>value\<close> undefined. The body never reads \<^verbatim>\<open>row\<close>, \<^verbatim>\<open>cell\<close> and
  \<^verbatim>\<open>columnDef\<close>; the model takes the two arguments that it reads.
\<close>

subsection \<open>JavaScript values\<close>

text \<open>
  The rows are JSON data, so a property of a row is absent (\<^verbatim>\<open>undefined\<close>),
  \<^verbatim>\<open>null\<close>, a boolean, a number or a string. \<open>JNum n\<close> stands for the
  integer-valued number \<open>n\<close>; below \<open>2 ^ 53\<close> in magnitude the arithmetic and the
  printing of JavaScript numbers agree with those of the integers, and theorems that
  depend on a product say so. Strings are lists of characters.
\<close>

datatype jsval = JUndefined | JNull | JBool bool | JNum int | JStr string

text \<open>A number computed by the formatter: an integer, or \<^verbatim>\<open>NaN\<close>.\<close>

datatype jsnum = Fin int | NaN

text \<open>The only failure of the function: a method call on a value that has no such method.\<close>

datatype error = TypeError

text \<open>
  The row item. \<open>collapsed\<close> is the property \<^verbatim>\<open>_collapsed\<close> of the source. \<open>indent\<close>
  is the tree depth that the grid widget writes into the item: a number, or absent
  (\<open>None\<close>).
\<close>

record node =
  type :: jsval
  collapsed :: jsval
  can_view :: jsval
  uid :: jsval
  url :: jsval
  ext :: jsval
  indent :: "int option"

subsection \<open>The language operations the function uses\<close>

text \<open>Decimal digits of a natural number, most significant first.\<close>

function show_nat :: "nat \<Rightarrow> string" where
  "show_nat n =
     (if n < 10 then [''0123456789'' ! n]
      else show_nat (n div 10) @ [''0123456789'' ! (n mod 10)])"
  by pat_completeness auto
termination
  by (relation "measure (\<lambda>n. n)") auto

declare show_nat.simps [simp del]

definition show_int :: "int \<Rightarrow> string" where
  "show_int i = (if i < 0 then ''-'' @ show_nat (nat (- i)) else show_nat (nat i))"

text \<open>\<^verbatim>\<open>ToString\<close>, as string concatenation applies it to a non-string operand.\<close>

fun ToString :: "jsval \<Rightarrow> string" where
  "ToString JUndefined = ''undefined''"
| "ToString JNull = ''null''"
| "ToString (JBool b) = (if b then ''true'' else ''false'')"
| "ToString (JNum n) = show_int n"
| "ToString (JStr s) = s"

fun NumberToString :: "jsnum \<Rightarrow> string" where
  "NumberToString (Fin n) = show_int n"
| "NumberToString NaN = ''NaN''"

text \<open>\<^verbatim>\<open>ToBoolean\<close>, the test of \<^verbatim>\<open>if (x)\<close>.\<close>

fun ToBoolean :: "jsval \<Rightarrow> bool" where
  "ToBoolean JUndefined = False"
| "ToBoolean JNull = False"
| "ToBoolean (JBool b) = b"
| "ToBoolean (JNum n) = (n \<noteq> 0)"
| "ToBoolean (JStr s) = (s \<noteq> [])"

text \<open>
  \<^verbatim>\<open>x == lit\<close> for a string literal \<open>lit\<close> that is not a numeric literal, as
  \<^verbatim>\<open>'folder'\<close> and \<^verbatim>\<open>"false"\<close> are. A string operand is compared as a string; a
  number or a boolean is compared with \<^verbatim>\<open>ToNumber(lit)\<close>, which is \<^verbatim>\<open>NaN\<close> and
  equals nothing; \<^verbatim>\<open>undefined\<close> and \<^verbatim>\<open>null\<close> equal only each other.
\<close>

fun loose_eq :: "jsval \<Rightarrow> string \<Rightarrow> bool" where
  "loose_eq (JStr s) lit = (s = lit)"
| "loose_eq JUndefined lit = False"
| "loose_eq JNull lit = False"
| "loose_eq (JBool b) lit = False"
| "loose_eq (JNum n) lit = False"

text \<open>\<^verbatim>\<open>18 * dataContext["indent"]\<close>: an absent operand converts to \<^verbatim>\<open>NaN\<close>.\<close>

fun js_times :: "int \<Rightarrow> int option \<Rightarrow> jsnum" where
  "js_times k None = NaN"
| "js_times k (Some n) = Fin (k * n)"

text \<open>
  \<^verbatim>\<open>s.replace(/c/g, r)\<close> for a single character \<open>c\<close> and a replacement text \<open>r\<close>
  without \<^verbatim>\<open>$\<close>, as the three of line 10 are: every occurrence of \<open>c\<close> is replaced
  by \<open>r\<close>, in one pass from left to right.
\<close>

fun replace_g :: "char \<Rightarrow> string \<Rightarrow> string \<Rightarrow> string" where
  "replace_g c r [] = []"
| "replace_g c r (x # xs) = (if x = c then r @ replace_g c r xs else x # replace_g c r xs)"

text \<open>
  \<^verbatim>\<open>Array.prototype.indexOf\<close>: the first index whose element is strictly equal to
  the argument, or \<open>-1\<close>. On the values of \<open>jsval\<close> strict equality is equality.
\<close>

fun indexOf_from :: "jsval list \<Rightarrow> jsval \<Rightarrow> int \<Rightarrow> int" where
  "indexOf_from [] x i = - 1"
| "indexOf_from (y # ys) x i = (if y = x then i else indexOf_from ys x (i + 1))"

definition indexOf :: "jsval list \<Rightarrow> jsval \<Rightarrow> int" where
  "indexOf xs x = indexOf_from xs x 0"

subsection \<open>The program\<close>

definition extension_names :: "string list" where
  "extension_names =
    [''3gp'', ''7z'', ''ace'', ''ai'', ''aif'', ''aiff'', ''amr'', ''asf'', ''asx'', ''bat'', ''bin'', ''bmp'', ''bup'',
     ''cab'', ''cbr'', ''cda'', ''cdl'', ''cdr'', ''chm'', ''dat'', ''divx'', ''dll'', ''dmg'', ''doc'', ''docx'', ''dss'', ''dvf'', ''dwg'',
     ''eml'', ''eps'', ''exe'', ''fla'', ''flv'', ''gif'', ''gz'', ''hqx'', ''htm'', ''html'', ''ifo'', ''indd'', ''iso'', ''jar'',
     ''jpeg'', ''jpg'', ''lnk'', ''log'', ''m4a'', ''m4b'', ''m4p'', ''m4v'', ''mcd'', ''mdb'', ''mid'', ''mov'', ''mp2'', ''mp3'', ''mp4'',
     ''mpeg'', ''mpg'', ''msi'', ''mswmm'', ''ogg'', ''pdf'', ''png'', ''pps'', ''ps'', ''psd'', ''pst'', ''ptb'', ''pub'', ''qbb'',
     ''qbw'', ''qxd'', ''ram'', ''rar'', ''rm'', ''rmvb'', ''rtf'', ''sea'', ''ses'', ''sit'', ''sitx'', ''ss'', ''swf'', ''tgz'', ''thm'',
     ''tif'', ''tmp'', ''torrent'', ''ttf'', ''txt'', ''vcd'', ''vob'', ''wav'', ''wma'', ''wmv'', ''wps'', ''xls'', ''xpi'', ''zip'']"

text \<open>The array \<^verbatim>\<open>extensions\<close>: its elements are the strings above.\<close>

definition extensions :: "jsval list" where
  "extensions = map JStr extension_names"

text \<open>
  Line 10: the text that the assignment writes back to \<^verbatim>\<open>value\<close>, three global
  replacements applied left to right.
\<close>

definition escape_value :: "string \<Rightarrow> string" where
  "escape_value s =
     replace_g (CHR ''>'') ''&gt;''
       (replace_g (CHR ''<'') ''&lt;''
         (replace_g (CHR ''&'') ''&amp;'' s))"

text \<open>Line 11, the local \<^verbatim>\<open>spacer\<close>.\<close>

definition spacer :: "node \<Rightarrow> string" where
  "spacer dataContext =
     ''<span style='display:inline-block;height:1px;width:''
       @ NumberToString (js_times 18 (indent dataContext)) @ ''px'></span>''"

text \<open>Lines 29 to 32, the local \<^verbatim>\<open>link\<close>; its first argument is the escaped \<^verbatim>\<open>value\<close>.\<close>

definition link :: "string \<Rightarrow> node \<Rightarrow> string" where
  "link value dataContext =
     (if ToBoolean (url dataContext)
      then ''<a href='' @ ToString (url dataContext) @ ''>'' @ value @ ''</a>''
      else value)"

text \<open>
  Lines 33 to 36, the local \<^verbatim>\<open>imageUrl\<close>: the path built from \<^verbatim>\<open>ext\<close> is
  overwritten when \<^verbatim>\<open>indexOf\<close> does not find \<^verbatim>\<open>ext\<close>.
\<close>

definition imageUrl :: "node \<Rightarrow> string" where
  "imageUrl dataContext =
     (if indexOf extensions (ext dataContext) = - 1
      then ''/static/img/hgrid/file.png''
      else ''/static/img/hgrid/fatcowicons/file_extension_''
             @ ToString (ext dataContext) @ ''.png'')"

text \<open>
  The function. \<^verbatim>\<open>value.replace\<close> exists only on a string: on any other value of
  \<open>jsval\<close> the call on line 10 raises \<^verbatim>\<open>TypeError\<close> and nothing is returned.
\<close>

definition TaskNameFormatter :: "jsval \<Rightarrow> node \<Rightarrow> error + string" where
  "TaskNameFormatter value dataContext =
    (case value of
       JStr s \<Rightarrow>
        (let value = escape_value s in
           if loose_eq (type dataContext) ''folder'' then
             if ToBoolean (collapsed dataContext) then
               if \<not> loose_eq (can_view dataContext) ''false'' then
                 Inr (spacer dataContext
                        @ '' <span class='toggle expand nav-filter-item' data-hgrid-nav=''
                        @ ToString (uid dataContext)
                        @ ''></span></span><span class='folder folder-open'></span>&nbsp;''
                        @ value @ ''</a>'')
               else
                 Inr (spacer dataContext
                        @ '' <span class='toggle nav-filter-item' data-hgrid-nav=''
                        @ ToString (uid dataContext)
                        @ ''></span></span><span class='folder folder-delete'></span>&nbsp;''
                        @ ''Private Component'' @ ''</a>'')
             else
               if \<not> loose_eq (can_view dataContext) ''false'' then
                 Inr (spacer dataContext
                        @ '' <span class='toggle collapse nav-filter-item' data-hgrid-nav=''
                        @ ToString (uid dataContext)
                        @ ''></span><span class='folder folder-close'></span>&nbsp;''
                        @ value @ ''</a>'')
               else
                 Inr (spacer dataContext
                        @ '' <span class='toggle nav-filter-item' data-hgrid-nav=''
                        @ ToString (uid dataContext)
                        @ ''></span><span class='folder folder-delete'></span>&nbsp;''
                        @ ''Private Component'' @ ''</a>'')
           else
             Inr (spacer dataContext
                    @ '' <span class='toggle'></span><span class='file' style='background: url(''
                    @ imageUrl dataContext
                    @ '') no-repeat left top;'></span>&nbsp;''
                    @ link value dataContext))
     | JUndefined \<Rightarrow> Inl TypeError
     | JNull \<Rightarrow> Inl TypeError
     | JBool b \<Rightarrow> Inl TypeError
     | JNum n \<Rightarrow> Inl TypeError)"

subsection \<open>Reference definitions\<close>

text \<open>
  The escaping as the specification words it: every character of the text is replaced
  once, by its entity when it is one of the three special characters and by itself
  otherwise.
\<close>

definition escape_char :: "char \<Rightarrow> string" where
  "escape_char c =
     (if c = CHR ''&'' then ''&amp;''
      else if c = CHR ''<'' then ''&lt;''
      else if c = CHR ''>'' then ''&gt;''
      else [c])"

text \<open>
  A text that holds no \<^verbatim>\<open><a\<close> and does not end in \<^verbatim>\<open><\<close>: appending such texts
  never opens an anchor tag.
\<close>

definition tag_free :: "string \<Rightarrow> bool" where
  "tag_free s = (\<not> sublist ''<a'' s \<and> (s = [] \<or> last s \<noteq> CHR ''<''))"

text \<open>The value of a string of decimal digits.\<close>

definition digits_value :: "string \<Rightarrow> nat" where
  "digits_value s = foldl (\<lambda>acc c. 10 * acc + (of_char c - 48)) 0 s"

subsection \<open>Example rows\<close>

text \<open>
  The row of the specification's end-to-end example, a folder the viewer may not see,
  a file with a link and a known extension, and a row with no property at all.
\<close>

definition docs_node :: node where
  "docs_node = \<lparr>type = JStr ''folder'', collapsed = JBool True, can_view = JStr ''true'',
     uid = JNum 7, url = JUndefined, ext = JUndefined, indent = Some 1\<rparr>"

definition private_node :: node where
  "private_node = \<lparr>type = JStr ''folder'', collapsed = JBool True, can_view = JStr ''false'',
     uid = JNum 7, url = JUndefined, ext = JUndefined, indent = Some 1\<rparr>"

definition pdf_node :: node where
  "pdf_node = \<lparr>type = JStr ''file'', collapsed = JUndefined, can_view = JUndefined,
     uid = JNum 3, url = JStr ''http://x'', ext = JStr ''pdf'', indent = Some 2\<rparr>"

definition bare_node :: node where
  "bare_node = \<lparr>type = JUndefined, collapsed = JUndefined, can_view = JUndefined,
     uid = JUndefined, url = JUndefined, ext = JUndefined, indent = None\<rparr>"

section \<open>Properties\<close>

subsection \<open>The language operations\<close>

lemma loose_eq_iff: "loose_eq x lit = (x = JStr lit)"
  by (cases x) auto

lemma indexOf_from_range: "0 \<le> i \<Longrightarrow> indexOf_from xs x i = - 1 \<or> i \<le> indexOf_from xs x i"
proof (induction xs arbitrary: i)
  case Nil
  then show ?case by simp
next
  case (Cons y ys)
  from Cons.prems have "0 \<le> i + 1" by simp
  from Cons.IH [OF this] show ?case by auto
qed

lemma indexOf_from_minus1: "0 \<le> i \<Longrightarrow> (indexOf_from xs x i = - 1) = (x \<notin> set xs)"
proof (induction xs arbitrary: i)
  case Nil
  then show ?case by simp
next
  case (Cons y ys)
  from Cons.prems have "0 \<le> i + 1" by simp
  from Cons.IH [OF this] Cons.prems show ?case by auto
qed

lemma indexOf_minus1: "(indexOf xs x = - 1) = (x \<notin> set xs)"
  by (simp add: indexOf_def indexOf_from_minus1)

lemma replace_g_append: "replace_g c r (xs @ ys) = replace_g c r xs @ replace_g c r ys"
  by (induction xs) simp_all

lemma escape_value_Nil: "escape_value [] = []"
  by (simp add: escape_value_def)

lemma escape_value_Cons: "escape_value (x # xs) = escape_char x @ escape_value xs"
  by (simp add: escape_value_def escape_char_def replace_g_append)

lemma escape_value_concat: "escape_value s = concat (map escape_char s)"
  by (induction s) (simp_all add: escape_value_Nil escape_value_Cons)

lemma escape_char_no_lt: "CHR ''<'' \<notin> set (escape_char c)"
  by (simp add: escape_char_def)

lemma escape_value_no_lt: "CHR ''<'' \<notin> set (escape_value s)"
  by (simp add: escape_value_concat escape_char_no_lt)

lemma show_nat_digits: "set (show_nat n) \<subseteq> set ''0123456789''"
proof (induction n rule: show_nat.induct)
  case (1 n)
  show ?case
  proof (cases "n < 10")
    case True
    then have "''0123456789'' ! n \<in> set ''0123456789''" by (intro nth_mem) simp
    with True show ?thesis by (subst show_nat.simps) simp
  next
    case False
    have "''0123456789'' ! (n mod 10) \<in> set ''0123456789''" by (intro nth_mem) simp
    with False 1 show ?thesis by (subst show_nat.simps) simp
  qed
qed

lemma show_int_no_lt: "CHR ''<'' \<notin> set (show_int i)"
  using show_nat_digits [of "nat i"] show_nat_digits [of "nat (- i)"]
  by (auto simp: show_int_def)

lemma sublist_pair_append:
  "sublist [a, b] (xs @ ys) \<Longrightarrow>
     sublist [a, b] xs \<or> sublist [a, b] ys \<or>
     (xs \<noteq> [] \<and> last xs = a \<and> ys \<noteq> [] \<and> hd ys = b)"
proof (induction xs)
  case Nil
  then show ?case by simp
next
  case (Cons x xs)
  from Cons.prems have "prefix [a, b] (x # xs @ ys) \<or> sublist [a, b] (xs @ ys)"
    by (simp add: sublist_Cons_right)
  then show ?case
  proof
    assume p: "prefix [a, b] (x # xs @ ys)"
    then have xa: "x = a" and pb: "prefix [b] (xs @ ys)" by simp_all
    show ?thesis
    proof (cases xs)
      case Nil
      with pb have "ys \<noteq> [] \<and> hd ys = b" by (cases ys) simp_all
      with Nil xa show ?thesis by simp
    next
      case (Cons z zs)
      with pb have "z = b" by simp
      with Cons xa have "prefix [a, b] (x # xs)" by simp
      then have "sublist [a, b] (x # xs)" by (rule prefix_imp_sublist)
      then show ?thesis by simp
    qed
  next
    assume "sublist [a, b] (xs @ ys)"
    from Cons.IH [OF this] show ?thesis
    proof (elim disjE)
      assume "sublist [a, b] xs"
      then have "sublist [a, b] (x # xs)" by (simp add: sublist_Cons_right)
      then show ?thesis by simp
    next
      assume "sublist [a, b] ys"
      then show ?thesis by simp
    next
      assume "xs \<noteq> [] \<and> last xs = a \<and> ys \<noteq> [] \<and> hd ys = b"
      then show ?thesis by simp
    qed
  qed
qed

lemma tag_free_append:
  assumes "tag_free xs" and "tag_free ys"
  shows "tag_free (xs @ ys)"
proof -
  from assms have nx: "\<not> sublist ''<a'' xs" and ny: "\<not> sublist ''<a'' ys"
    and lx: "xs = [] \<or> last xs \<noteq> CHR ''<''" and ly: "ys = [] \<or> last ys \<noteq> CHR ''<''"
    by (simp_all add: tag_free_def)
  have "\<not> sublist ''<a'' (xs @ ys)"
  proof
    assume "sublist ''<a'' (xs @ ys)"
    from sublist_pair_append [OF this] nx ny lx show False by blast
  qed
  moreover have "xs @ ys = [] \<or> last (xs @ ys) \<noteq> CHR ''<''"
    using lx ly by (cases "ys = []") simp_all
  ultimately show ?thesis by (simp add: tag_free_def)
qed

lemma tag_free_no_lt:
  assumes "CHR ''<'' \<notin> set s"
  shows "tag_free s"
proof -
  have "\<not> sublist ''<a'' s"
  proof
    assume "sublist ''<a'' s"
    from set_mono_sublist [OF this] assms show False by simp
  qed
  moreover have "s = [] \<or> last s \<noteq> CHR ''<''"
    using assms last_in_set [of s] by metis
  ultimately show ?thesis by (simp add: tag_free_def)
qed

lemma tag_freeI: "\<not> sublist ''<a'' s \<Longrightarrow> last s \<noteq> CHR ''<'' \<Longrightarrow> tag_free s"
  by (simp add: tag_free_def)

lemma tag_freeD: "tag_free s \<Longrightarrow> \<not> sublist ''<a'' s"
  by (simp add: tag_free_def)

lemma tag_free_spacer_open: "tag_free ''<span style='display:inline-block;height:1px;width:''"
  apply (rule tag_freeI)
   apply code_simp
  apply simp
  done

lemma tag_free_spacer_close: "tag_free ''px'></span>''"
  apply (rule tag_freeI)
   apply code_simp
  apply simp
  done

lemma tag_free_file_open:
  "tag_free '' <span class='toggle'></span><span class='file' style='background: url(''"
  apply (rule tag_freeI)
   apply code_simp
  apply simp
  done

lemma tag_free_file_close: "tag_free '') no-repeat left top;'></span>&nbsp;''"
  apply (rule tag_freeI)
   apply code_simp
  apply simp
  done

lemma tag_free_expand_open: "tag_free '' <span class='toggle expand nav-filter-item' data-hgrid-nav=''"
  apply (rule tag_freeI)
   apply code_simp
  apply simp
  done

lemma tag_free_expand_close: "tag_free ''></span></span><span class='folder folder-open'></span>&nbsp;''"
  apply (rule tag_freeI)
   apply code_simp
  apply simp
  done

lemma tag_free_anchor_close: "tag_free ''</a>''"
  apply (rule tag_freeI)
   apply code_simp
  apply simp
  done

lemma NumberToString_no_lt: "CHR ''<'' \<notin> set (NumberToString x)"
  by (cases x) (simp_all add: show_int_no_lt)

lemma tag_free_spacer: "tag_free (spacer d)"
  unfolding spacer_def
  by (intro tag_free_append tag_free_spacer_open tag_free_spacer_close
        tag_free_no_lt NumberToString_no_lt)

lemma extension_names_all_no_lt:
  "list_all (\<lambda>e. list_all (\<lambda>c. c \<noteq> CHR ''<'') e) extension_names"
  by code_simp

lemma extension_names_no_lt:
  assumes "e \<in> set extension_names"
  shows "CHR ''<'' \<notin> set e"
proof -
  have "\<forall>e\<in>set extension_names. \<forall>c\<in>set e. c \<noteq> CHR ''<''"
    by (rule extension_names_all_no_lt [unfolded list_all_iff])
  with assms show ?thesis by blast
qed

lemma imageUrl_cases:
  "imageUrl d =
     (if ext d \<in> set extensions
      then ''/static/img/hgrid/fatcowicons/file_extension_'' @ ToString (ext d) @ ''.png''
      else ''/static/img/hgrid/file.png'')"
  by (simp add: imageUrl_def indexOf_minus1)

lemma imageUrl_no_lt: "CHR ''<'' \<notin> set (imageUrl d)"
proof (cases "ext d \<in> set extensions")
  case True
  then obtain e where e: "ext d = JStr e" "e \<in> set extension_names"
    by (auto simp: extensions_def)
  with True extension_names_no_lt [OF e(2)] show ?thesis
    by (simp add: imageUrl_cases)
next
  case False
  then show ?thesis by (simp add: imageUrl_cases)
qed

lemma file_row:
  "type d \<noteq> JStr ''folder'' \<Longrightarrow>
   TaskNameFormatter (JStr s) d =
     Inr (spacer d @ '' <span class='toggle'></span><span class='file' style='background: url(''
            @ imageUrl d @ '') no-repeat left top;'></span>&nbsp;'' @ link (escape_value s) d)"
  by (simp add: TaskNameFormatter_def loose_eq_iff)

lemma digit_char_value: "k < 10 \<Longrightarrow> of_char (''0123456789'' ! k) = 48 + k"
proof -
  assume "k < 10"
  then consider "k = 0" | "k = 1" | "k = 2" | "k = 3" | "k = 4"
    | "k = 5" | "k = 6" | "k = 7" | "k = 8" | "k = 9"
    by atomize_elim arith
  then show ?thesis by cases simp_all
qed

lemma digits_value_snoc: "digits_value (s @ [c]) = 10 * digits_value s + (of_char c - 48)"
  by (simp add: digits_value_def)

lemma digits_value_show_nat: "digits_value (show_nat n) = n"
proof (induction n rule: show_nat.induct)
  case (1 n)
  show ?case
  proof (cases "n < 10")
    case True
    then have "show_nat n = [] @ [''0123456789'' ! n]" by (subst show_nat.simps) simp
    then have "digits_value (show_nat n) = 10 * digits_value [] + (of_char (''0123456789'' ! n) - 48)"
      by (simp only: digits_value_snoc)
    with True show ?thesis by (simp add: digit_char_value digits_value_def)
  next
    case False
    then have "show_nat n = show_nat (n div 10) @ [''0123456789'' ! (n mod 10)]"
      by (subst show_nat.simps) simp
    then have "digits_value (show_nat n) =
        10 * digits_value (show_nat (n div 10)) + (of_char (''0123456789'' ! (n mod 10)) - 48)"
      by (simp only: digits_value_snoc)
    with False 1 show ?thesis by (simp add: digit_char_value)
  qed
qed

subsection \<open>The branches of the function\<close>

lemma folder_collapsed_viewable:
  "type d = JStr ''folder'' \<Longrightarrow> ToBoolean (collapsed d) \<Longrightarrow> can_view d \<noteq> JStr ''false'' \<Longrightarrow>
   TaskNameFormatter (JStr s) d =
     Inr (spacer d @ '' <span class='toggle expand nav-filter-item' data-hgrid-nav=''
            @ ToString (uid d)
            @ ''></span></span><span class='folder folder-open'></span>&nbsp;''
            @ escape_value s @ ''</a>'')"
  by (simp add: TaskNameFormatter_def loose_eq_iff)

lemma folder_collapsed_private:
  "type d = JStr ''folder'' \<Longrightarrow> ToBoolean (collapsed d) \<Longrightarrow> can_view d = JStr ''false'' \<Longrightarrow>
   TaskNameFormatter (JStr s) d =
     Inr (spacer d @ '' <span class='toggle nav-filter-item' data-hgrid-nav=''
            @ ToString (uid d)
                @ ''></span></span><span class='folder folder-delete'></span>&nbsp;Private Component</a>'')"
  by (simp add: TaskNameFormatter_def)

lemma folder_expanded_viewable:
  "type d = JStr ''folder'' \<Longrightarrow> \<not> ToBoolean (collapsed d) \<Longrightarrow> can_view d \<noteq> JStr ''false'' \<Longrightarrow>
   TaskNameFormatter (JStr s) d =
     Inr (spacer d @ '' <span class='toggle collapse nav-filter-item' data-hgrid-nav=''
            @ ToString (uid d)
            @ ''></span><span class='folder folder-close'></span>&nbsp;''
            @ escape_value s @ ''</a>'')"
  by (simp add: TaskNameFormatter_def loose_eq_iff)

lemma folder_expanded_private:
  "type d = JStr ''folder'' \<Longrightarrow> \<not> ToBoolean (collapsed d) \<Longrightarrow> can_view d = JStr ''false'' \<Longrightarrow>
   TaskNameFormatter (JStr s) d =
     Inr (spacer d @ '' <span class='toggle nav-filter-item' data-hgrid-nav=''
            @ ToString (uid d)
            @ ''></span><span class='folder folder-delete'></span>&nbsp;Private Component</a>'')"
  by (simp add: TaskNameFormatter_def)

lemma not_string_raises: "(\<forall>s. v \<noteq> JStr s) \<Longrightarrow> TaskNameFormatter v d = Inl TypeError"
  by (cases v) (simp_all add: TaskNameFormatter_def)

lemma string_returns: "\<exists>out. TaskNameFormatter (JStr s) d = Inr out"
  by (simp add: TaskNameFormatter_def Let_def)

lemmas eval_simps = TaskNameFormatter_def spacer_def link_def imageUrl_def escape_value_def
  indexOf_def extensions_def extension_names_def show_int_def show_nat.simps

section \<open>The claims\<close>

text \<open>
  C1, as amended. For a folder whose \<^verbatim>\<open>can_view\<close> is the string \<^verbatim>\<open>"false"\<close>, collapsed or
  not, the fragment is built from the spacer, the uid and fixed markup only, with the
  label \<^verbatim>\<open>Private Component\<close>; the name is not an ingredient, so every name gives the same
  fragment.
\<close>

theorem private_folder_hides_name:
  assumes "type d = JStr ''folder''" and "can_view d = JStr ''false''"
  shows "TaskNameFormatter (JStr s) d =
           Inr (spacer d @ '' <span class='toggle nav-filter-item' data-hgrid-nav=''
                  @ ToString (uid d)
                  @ (if ToBoolean (collapsed d) then ''></span></span>'' else ''></span>'')
                  @ ''<span class='folder folder-delete'></span>&nbsp;''
                  @ ''Private Component'' @ ''</a>'')
         \<and> TaskNameFormatter (JStr s) d = TaskNameFormatter (JStr t) d"
proof (cases "ToBoolean (collapsed d)")
  case True
  with assms show ?thesis by (simp add: folder_collapsed_private)
next
  case False
  with assms show ?thesis by (simp add: folder_expanded_private)
qed

theorem private_folder_hides_name_witness:
  "type private_node = JStr ''folder'' \<and> can_view private_node = JStr ''false''
   \<and> TaskNameFormatter (JStr ''Docs'') private_node = Inr (''<span style='display:inline-block;height:1px;width:18px'></span>''
       @ '' <span class='toggle nav-filter-item' data-hgrid-nav=7></span></span>''
       @ ''<span class='folder folder-delete'></span>&nbsp;Private Component</a>'')
   \<and> TaskNameFormatter (JStr ''Docs'') private_node
       = TaskNameFormatter (JStr ''Budget 2014'') private_node"
proof -
  have h1: "type private_node = JStr ''folder''" by (simp add: private_node_def)
  have h2: "can_view private_node = JStr ''false''" by (simp add: private_node_def)
  note w = private_folder_hides_name [OF h1 h2, of "''Docs''" "''Budget 2014''"]
  have "TaskNameFormatter (JStr ''Docs'') private_node = Inr (''<span style='display:inline-block;height:1px;width:18px'></span>''
      @ '' <span class='toggle nav-filter-item' data-hgrid-nav=7></span></span>''
      @ ''<span class='folder folder-delete'></span>&nbsp;Private Component</a>'')"
    using w [THEN conjunct1]
    by (simp add: private_node_def spacer_def show_int_def show_nat.simps)
  then show ?thesis
    by (intro conjI h1 h2 w [THEN conjunct2])
qed

text \<open>
  C1 as it is stated fails: a name that occurs in the fixed markup occurs in the
  fragment. The folder named \<^verbatim>\<open>span\<close> is redacted and its fragment contains \<^verbatim>\<open>span\<close>.
\<close>

theorem private_folder_name_in_markup:
  "type private_node = JStr ''folder'' \<and> can_view private_node = JStr ''false''
   \<and> TaskNameFormatter (JStr ''span'') private_node = Inr (''<span style='display:inline-block;height:1px;width:18px'></span>''
       @ '' <span class='toggle nav-filter-item' data-hgrid-nav=7></span></span>''
       @ ''<span class='folder folder-delete'></span>&nbsp;Private Component</a>'')
   \<and> sublist ''span'' (''<span style='display:inline-block;height:1px;width:18px'></span>''
       @ '' <span class='toggle nav-filter-item' data-hgrid-nav=7></span></span>''
       @ ''<span class='folder folder-delete'></span>&nbsp;Private Component</a>'')"
proof -
  have "TaskNameFormatter (JStr ''span'') private_node = Inr (''<span style='display:inline-block;height:1px;width:18px'></span>''
      @ '' <span class='toggle nav-filter-item' data-hgrid-nav=7></span></span>''
      @ ''<span class='folder folder-delete'></span>&nbsp;Private Component</a>'')"
    by (simp add: eval_simps private_node_def)
  moreover have "sublist ''span'' (''<span style='display:inline-block;height:1px;width:18px'></span>''
      @ '' <span class='toggle nav-filter-item' data-hgrid-nav=7></span></span>''
      @ ''<span class='folder folder-delete'></span>&nbsp;Private Component</a>'')"
    by code_simp
  ultimately show ?thesis by (simp add: private_node_def)
qed

text \<open>
  The comparison \<^verbatim>\<open>can_view != "false"\<close> holds for the boolean \<^verbatim>\<open>false\<close>: such a
  folder is treated as viewable and its name is shown.
\<close>

lemma boolean_false_is_viewable:
  "TaskNameFormatter (JStr ''Docs'') (private_node\<lparr>can_view := JBool False\<rparr>) =
     Inr (''<span style='display:inline-block;height:1px;width:18px'></span>''
         @ '' <span class='toggle expand nav-filter-item' data-hgrid-nav=7></span></span><span class='folder folder-open'></span>&nbsp;''
         @ ''Docs''
         @ ''</a>'')"
  by (simp add: eval_simps private_node_def)

text \<open>
  C2. On the node of the end-to-end example (\<^verbatim>\<open>collapsed\<close> is the property
  \<^verbatim>\<open>_collapsed\<close>, \<^verbatim>\<open>name\<close> arrives as \<^verbatim>\<open>value\<close>) the fragment is, in this order: the
  spacer of width 18px, a space, the expand toggle whose \<^verbatim>\<open>data-hgrid-nav\<close> is 7, a stray
  closing tag, the icon of class \<^verbatim>\<open>folder-open\<close>, a no-break space, the text \<^verbatim>\<open>Docs\<close>,
  and a closing anchor tag.
\<close>

theorem docs_example:
  "TaskNameFormatter (JStr ''Docs'') docs_node =
     Inr (''<span style='display:inline-block;height:1px;width:18px'></span>''
          @ '' '' @ ''<span class='toggle expand nav-filter-item' data-hgrid-nav=7></span>''
          @ ''</span>'' @ ''<span class='folder folder-open'></span>''
          @ ''&nbsp;'' @ ''Docs'' @ ''</a>'')"
  by (simp add: eval_simps docs_node_def)

text \<open>
  C3, as amended. Whenever \<^verbatim>\<open>value\<close> is a string the function returns a fragment,
  whatever the node holds; it raises \<^verbatim>\<open>TypeError\<close> exactly when \<^verbatim>\<open>value\<close> is not a
  string. A missing \<^verbatim>\<open>type\<close> takes the file branch, a missing \<^verbatim>\<open>ext\<close> gives the generic
  icon and a missing \<^verbatim>\<open>url\<close> gives the plain label.
\<close>

theorem returns_fragment_on_string_value:
  "(\<exists>out. TaskNameFormatter (JStr s) d = Inr out)
   \<and> ((\<forall>s'. v \<noteq> JStr s') \<longrightarrow> TaskNameFormatter v d = Inl TypeError)
   \<and> (type d = JUndefined \<longrightarrow>
        TaskNameFormatter (JStr s) d =
          Inr (spacer d
              @ '' <span class='toggle'></span><span class='file' style='background: url(''
              @ imageUrl d
              @ '') no-repeat left top;'></span>&nbsp;''
              @ link (escape_value s) d))
   \<and> (ext d = JUndefined \<longrightarrow> imageUrl d = ''/static/img/hgrid/file.png'')
   \<and> (url d = JUndefined \<longrightarrow> link (escape_value s) d = escape_value s)"
proof -
  have "JUndefined \<notin> set extensions" by (auto simp: extensions_def)
  then have "ext d = JUndefined \<longrightarrow> imageUrl d = ''/static/img/hgrid/file.png''"
    by (simp add: imageUrl_cases)
  moreover have "url d = JUndefined \<longrightarrow> link (escape_value s) d = escape_value s"
    by (simp add: link_def)
  moreover have "type d = JUndefined \<longrightarrow>
        TaskNameFormatter (JStr s) d =
          Inr (spacer d
              @ '' <span class='toggle'></span><span class='file' style='background: url(''
              @ imageUrl d
              @ '') no-repeat left top;'></span>&nbsp;''
              @ link (escape_value s) d)"
    by (simp add: file_row)
  ultimately show ?thesis
    using string_returns [of s d] not_string_raises [of v d] by blast
qed

theorem returns_fragment_on_string_value_witness:
  "(\<forall>s'. JNull \<noteq> JStr s') \<and> type bare_node = JUndefined \<and> ext bare_node = JUndefined
   \<and> url bare_node = JUndefined
   \<and> TaskNameFormatter JNull bare_node = Inl TypeError
   \<and> TaskNameFormatter (JStr ''readme'') bare_node =
       Inr (''<span style='display:inline-block;height:1px;width:NaNpx'></span>''
                @ '' <span class='toggle'></span><span class='file' style='background: url(''
                @ ''/static/img/hgrid/file.png''
                @ '') no-repeat left top;'></span>&nbsp;''
                @ ''readme'')"
  using returns_fragment_on_string_value [of "''readme''" bare_node JNull]
  by (simp add: bare_node_def spacer_def escape_value_def)

text \<open>
  C3 as it is stated fails: for a node without a name the grid passes \<^verbatim>\<open>undefined\<close> as
  \<^verbatim>\<open>value\<close>, and \<^verbatim>\<open>value.replace\<close> raises.
\<close>

theorem nameless_node_raises:
  "TaskNameFormatter JUndefined pdf_node = Inl TypeError"
  by (simp add: TaskNameFormatter_def)

text \<open>
  C4. Line 10 replaces \<^verbatim>\<open>&\<close>, then \<^verbatim>\<open><\<close>, then \<^verbatim>\<open>>\<close>; the result is the text in
  which every character has been escaped exactly once, so \<^verbatim>\<open><\<close> becomes \<^verbatim>\<open>&lt;\<close> and
  \<^verbatim>\<open>>\<close> becomes \<^verbatim>\<open>&gt;\<close>. The order matters: replacing \<^verbatim>\<open><\<close> before \<^verbatim>\<open>&\<close> would
  give \<^verbatim>\<open>&amp;lt;\<close>. For every label and every node, the label that the function
  writes into the fragment (as plain text or inside the link of a file, and after the
  icon of a viewable folder, collapsed or expanded) is that once-escaped text, which
  holds no \<^verbatim>\<open><\<close> and no \<^verbatim>\<open>>\<close>; the raw label is written nowhere.
\<close>

theorem escape_value_once_per_character:
  "escape_value s =
     replace_g (CHR ''>'') ''&gt;''
       (replace_g (CHR ''<'') ''&lt;'' (replace_g (CHR ''&'') ''&amp;'' s))
   \<and> escape_value s = concat (map escape_char s)
   \<and> escape_value ''<'' = ''&lt;''
   \<and> escape_value ''>'' = ''&gt;''
   \<and> escape_value ''&'' = ''&amp;''
   \<and> replace_g (CHR ''&'') ''&amp;'' (replace_g (CHR ''<'') ''&lt;'' ''<'') = ''&amp;lt;''
   \<and> TaskNameFormatter (JStr ''a<b>&c'') pdf_node =
       Inr (''<span style='display:inline-block;height:1px;width:36px'></span>''
            @ '' <span class='toggle'></span><span class='file' style='background: url(''
            @ ''/static/img/hgrid/fatcowicons/file_extension_pdf.png''
            @ '') no-repeat left top;'></span>&nbsp;''
            @ ''<a href=http://x>'' @ ''a&lt;b&gt;&amp;c'' @ ''</a>'')
   \<and> CHR ''<'' \<notin> set (concat (map escape_char s))
   \<and> CHR ''>'' \<notin> set (concat (map escape_char s))
   \<and> (type d \<noteq> JStr ''folder'' \<longrightarrow> \<not> ToBoolean (url d) \<longrightarrow>
        TaskNameFormatter (JStr s) d =
          Inr (spacer d
               @ '' <span class='toggle'></span><span class='file' style='background: url(''
               @ imageUrl d
               @ '') no-repeat left top;'></span>&nbsp;''
               @ concat (map escape_char s)))
   \<and> (type d \<noteq> JStr ''folder'' \<longrightarrow> ToBoolean (url d) \<longrightarrow>
        TaskNameFormatter (JStr s) d =
          Inr (spacer d
               @ '' <span class='toggle'></span><span class='file' style='background: url(''
               @ imageUrl d
               @ '') no-repeat left top;'></span>&nbsp;''
               @ ''<a href='' @ ToString (url d) @ ''>''
               @ concat (map escape_char s) @ ''</a>''))
   \<and> (type d = JStr ''folder'' \<longrightarrow> ToBoolean (collapsed d) \<longrightarrow> can_view d \<noteq> JStr ''false'' \<longrightarrow>
        TaskNameFormatter (JStr s) d =
          Inr (spacer d
               @ '' <span class='toggle expand nav-filter-item' data-hgrid-nav=''
               @ ToString (uid d)
               @ ''></span></span><span class='folder folder-open'></span>&nbsp;''
               @ concat (map escape_char s) @ ''</a>''))
   \<and> (type d = JStr ''folder'' \<longrightarrow> \<not> ToBoolean (collapsed d) \<longrightarrow> can_view d \<noteq> JStr ''false'' \<longrightarrow>
        TaskNameFormatter (JStr s) d =
          Inr (spacer d
               @ '' <span class='toggle collapse nav-filter-item' data-hgrid-nav=''
               @ ToString (uid d)
               @ ''></span><span class='folder folder-close'></span>&nbsp;''
               @ concat (map escape_char s) @ ''</a>''))"
proof -
  have closed: "TaskNameFormatter (JStr ''a<b>&c'') pdf_node =
       Inr (''<span style='display:inline-block;height:1px;width:36px'></span>''
            @ '' <span class='toggle'></span><span class='file' style='background: url(''
            @ ''/static/img/hgrid/fatcowicons/file_extension_pdf.png''
            @ '') no-repeat left top;'></span>&nbsp;''
            @ ''<a href=http://x>'' @ ''a&lt;b&gt;&amp;c'' @ ''</a>'')"
    by (simp add: eval_simps pdf_node_def)
  have once: "escape_value s = concat (map escape_char s)"
    by (rule escape_value_concat)
  have ex: "escape_value ''<'' = ''&lt;''" "escape_value ''>'' = ''&gt;''"
    "escape_value ''&'' = ''&amp;''"
    "replace_g (CHR ''&'') ''&amp;'' (replace_g (CHR ''<'') ''&lt;'' ''<'') = ''&amp;lt;''"
    by (simp_all add: escape_value_def)
  have steps: "escape_value s =
     replace_g (CHR ''>'') ''&gt;''
       (replace_g (CHR ''<'') ''&lt;'' (replace_g (CHR ''&'') ''&amp;'' s))"
    by (rule escape_value_def)
  have nolt: "CHR ''<'' \<notin> set (concat (map escape_char s))"
    by (simp add: escape_char_no_lt)
  have nogt: "CHR ''>'' \<notin> set (concat (map escape_char s))"
    by (simp add: escape_char_def)
  have plain: "type d \<noteq> JStr ''folder'' \<longrightarrow> \<not> ToBoolean (url d) \<longrightarrow>
        TaskNameFormatter (JStr s) d =
          Inr (spacer d
               @ '' <span class='toggle'></span><span class='file' style='background: url(''
               @ imageUrl d
               @ '') no-repeat left top;'></span>&nbsp;''
               @ concat (map escape_char s))"
    by (simp add: file_row link_def once)
  have linked: "type d \<noteq> JStr ''folder'' \<longrightarrow> ToBoolean (url d) \<longrightarrow>
        TaskNameFormatter (JStr s) d =
          Inr (spacer d
               @ '' <span class='toggle'></span><span class='file' style='background: url(''
               @ imageUrl d
               @ '') no-repeat left top;'></span>&nbsp;''
               @ ''<a href='' @ ToString (url d) @ ''>''
               @ concat (map escape_char s) @ ''</a>'')"
    by (simp add: file_row link_def once)
  have coll: "type d = JStr ''folder'' \<longrightarrow> ToBoolean (collapsed d) \<longrightarrow> can_view d \<noteq> JStr ''false'' \<longrightarrow>
        TaskNameFormatter (JStr s) d =
          Inr (spacer d
               @ '' <span class='toggle expand nav-filter-item' data-hgrid-nav=''
               @ ToString (uid d)
               @ ''></span></span><span class='folder folder-open'></span>&nbsp;''
               @ concat (map escape_char s) @ ''</a>'')"
    by (simp add: folder_collapsed_viewable once)
  have expd: "type d = JStr ''folder'' \<longrightarrow> \<not> ToBoolean (collapsed d) \<longrightarrow> can_view d \<noteq> JStr ''false'' \<longrightarrow>
        TaskNameFormatter (JStr s) d =
          Inr (spacer d
               @ '' <span class='toggle collapse nav-filter-item' data-hgrid-nav=''
               @ ToString (uid d)
               @ ''></span><span class='folder folder-close'></span>&nbsp;''
               @ concat (map escape_char s) @ ''</a>'')"
    by (simp add: folder_expanded_viewable once)
  show ?thesis
    by (intro conjI steps once ex closed nolt nogt plain linked coll expd)
qed

text \<open>
  The four places of the label at the label \<^verbatim>\<open><b>&\<close>: a file without and with a
  link, and the viewable folder collapsed and expanded.
\<close>

theorem escape_value_once_per_character_witness:
  "type (pdf_node\<lparr>url := JUndefined\<rparr>) \<noteq> JStr ''folder''
   \<and> \<not> ToBoolean (url (pdf_node\<lparr>url := JUndefined\<rparr>))
   \<and> TaskNameFormatter (JStr ''<b>&'') (pdf_node\<lparr>url := JUndefined\<rparr>) =
       Inr (''<span style='display:inline-block;height:1px;width:36px'></span>''
            @ '' <span class='toggle'></span><span class='file' style='background: url(''
            @ ''/static/img/hgrid/fatcowicons/file_extension_pdf.png''
            @ '') no-repeat left top;'></span>&nbsp;''
            @ ''&lt;b&gt;&amp;'')
   \<and> type pdf_node \<noteq> JStr ''folder'' \<and> ToBoolean (url pdf_node)
   \<and> TaskNameFormatter (JStr ''<b>&'') pdf_node =
       Inr (''<span style='display:inline-block;height:1px;width:36px'></span>''
            @ '' <span class='toggle'></span><span class='file' style='background: url(''
            @ ''/static/img/hgrid/fatcowicons/file_extension_pdf.png''
            @ '') no-repeat left top;'></span>&nbsp;''
            @ ''<a href=http://x>'' @ ''&lt;b&gt;&amp;'' @ ''</a>'')
   \<and> type docs_node = JStr ''folder'' \<and> ToBoolean (collapsed docs_node)
   \<and> can_view docs_node \<noteq> JStr ''false''
   \<and> TaskNameFormatter (JStr ''<b>&'') docs_node =
       Inr (''<span style='display:inline-block;height:1px;width:18px'></span>''
            @ '' <span class='toggle expand nav-filter-item' data-hgrid-nav='' @ ''7''
            @ ''></span></span><span class='folder folder-open'></span>&nbsp;''
            @ ''&lt;b&gt;&amp;'' @ ''</a>'')
   \<and> \<not> ToBoolean (collapsed (docs_node\<lparr>collapsed := JBool False\<rparr>))
   \<and> TaskNameFormatter (JStr ''<b>&'') (docs_node\<lparr>collapsed := JBool False\<rparr>) =
       Inr (''<span style='display:inline-block;height:1px;width:18px'></span>''
            @ '' <span class='toggle collapse nav-filter-item' data-hgrid-nav='' @ ''7''
            @ ''></span><span class='folder folder-close'></span>&nbsp;''
            @ ''&lt;b&gt;&amp;'' @ ''</a>'')"
proof -
  let ?p = "pdf_node\<lparr>url := JUndefined\<rparr>"
  let ?e = "docs_node\<lparr>collapsed := JBool False\<rparr>"
  have hp: "type ?p \<noteq> JStr ''folder''" "\<not> ToBoolean (url ?p)"
    "type pdf_node \<noteq> JStr ''folder''" "ToBoolean (url pdf_node)"
    by (simp_all add: pdf_node_def)
  have hd: "type docs_node = JStr ''folder''" "ToBoolean (collapsed docs_node)"
    "can_view docs_node \<noteq> JStr ''false''"
    "type ?e = JStr ''folder''" "\<not> ToBoolean (collapsed ?e)" "can_view ?e \<noteq> JStr ''false''"
    by (simp_all add: docs_node_def)
  have ev: "spacer ?p = ''<span style='display:inline-block;height:1px;width:36px'></span>''" "spacer pdf_node = ''<span style='display:inline-block;height:1px;width:36px'></span>''"
    "imageUrl ?p = ''/static/img/hgrid/fatcowicons/file_extension_pdf.png''" "imageUrl pdf_node = ''/static/img/hgrid/fatcowicons/file_extension_pdf.png''"
    "ToString (url pdf_node) = ''http://x''"
    "spacer docs_node = ''<span style='display:inline-block;height:1px;width:18px'></span>''" "spacer ?e = ''<span style='display:inline-block;height:1px;width:18px'></span>''"
    "ToString (uid docs_node) = ''7''" "ToString (uid ?e) = ''7''"
    "concat (map escape_char ''<b>&'') = ''&lt;b&gt;&amp;''"
    by (simp_all add: pdf_node_def docs_node_def spacer_def imageUrl_def indexOf_def
          extensions_def extension_names_def escape_char_def show_int_def show_nat.simps)
  have a: "TaskNameFormatter (JStr ''<b>&'') ?p =
       Inr (''<span style='display:inline-block;height:1px;width:36px'></span>''
            @ '' <span class='toggle'></span><span class='file' style='background: url(''
            @ ''/static/img/hgrid/fatcowicons/file_extension_pdf.png''
            @ '') no-repeat left top;'></span>&nbsp;''
            @ ''&lt;b&gt;&amp;'')"
    using escape_value_once_per_character [of "''<b>&''" ?p] hp(1,2) ev by simp
  have b: "TaskNameFormatter (JStr ''<b>&'') pdf_node =
       Inr (''<span style='display:inline-block;height:1px;width:36px'></span>''
            @ '' <span class='toggle'></span><span class='file' style='background: url(''
            @ ''/static/img/hgrid/fatcowicons/file_extension_pdf.png''
            @ '') no-repeat left top;'></span>&nbsp;''
            @ ''<a href=http://x>'' @ ''&lt;b&gt;&amp;'' @ ''</a>'')"
    using escape_value_once_per_character [of "''<b>&''" pdf_node] hp(3,4) ev by simp
  have c: "TaskNameFormatter (JStr ''<b>&'') docs_node =
       Inr (''<span style='display:inline-block;height:1px;width:18px'></span>''
            @ '' <span class='toggle expand nav-filter-item' data-hgrid-nav='' @ ''7''
            @ ''></span></span><span class='folder folder-open'></span>&nbsp;''
            @ ''&lt;b&gt;&amp;'' @ ''</a>'')"
    using escape_value_once_per_character [of "''<b>&''" docs_node] hd(1,2,3) ev by simp
  have e: "TaskNameFormatter (JStr ''<b>&'') ?e =
       Inr (''<span style='display:inline-block;height:1px;width:18px'></span>''
            @ '' <span class='toggle collapse nav-filter-item' data-hgrid-nav='' @ ''7''
            @ ''></span><span class='folder folder-close'></span>&nbsp;''
            @ ''&lt;b&gt;&amp;'' @ ''</a>'')"
    using escape_value_once_per_character [of "''<b>&''" ?e] hd(4,5,6) ev by simp
  show ?thesis
    by (intro conjI hp hd(1,2,3,5) a b c e)
qed

text \<open>
  C5. For a file node (any node whose \<^verbatim>\<open>type\<close> is not \<^verbatim>\<open>folder\<close>) the icon in the
  fragment has one of two forms, decided by whether \<^verbatim>\<open>ext\<close> is an element of
  \<^verbatim>\<open>extensions\<close>: the path \<^verbatim>\<open>file_extension_<ext>.png\<close> when it is, the generic
  \<^verbatim>\<open>file.png\<close> when it is not.
\<close>

theorem file_icon_by_extension:
  assumes "type d \<noteq> JStr ''folder''"
  shows "TaskNameFormatter (JStr s) d =
           Inr (spacer d
               @ '' <span class='toggle'></span><span class='file' style='background: url(''
                @ (if ext d \<in> set extensions
                   then ''/static/img/hgrid/fatcowicons/file_extension_''
                       @ ToString (ext d)
                       @ ''.png''
                   else ''/static/img/hgrid/file.png'')
                @ '') no-repeat left top;'></span>&nbsp;'' @ link (escape_value s) d)"
  using assms by (simp add: file_row imageUrl_cases)

text \<open>
  The two outcomes at \<^verbatim>\<open>pdf\<close> and \<^verbatim>\<open>xyz\<close>; membership is exact, so \<^verbatim>\<open>PDF\<close> and
  the fragment \<^verbatim>\<open>pd\<close> of a known extension get the generic icon.
\<close>

theorem file_icon_by_extension_witness:
  "type pdf_node \<noteq> JStr ''folder''
   \<and> TaskNameFormatter (JStr ''a'') pdf_node =
       Inr (''<span style='display:inline-block;height:1px;width:36px'></span>''
           @ '' <span class='toggle'></span><span class='file' style='background: url(''
           @ ''/static/img/hgrid/fatcowicons/file_extension_pdf.png''
           @ '') no-repeat left top;'></span>&nbsp;''
            @ ''<a href=http://x>a</a>'')
   \<and> TaskNameFormatter (JStr ''a'') (pdf_node\<lparr>ext := JStr ''xyz''\<rparr>) =
       Inr (''<span style='display:inline-block;height:1px;width:36px'></span>''
           @ '' <span class='toggle'></span><span class='file' style='background: url(''
           @ ''/static/img/hgrid/file.png''
           @ '') no-repeat left top;'></span>&nbsp;''
           @ ''<a href=http://x>a</a>'')
   \<and> TaskNameFormatter (JStr ''a'') (pdf_node\<lparr>ext := JStr ''PDF''\<rparr>) =
       Inr (''<span style='display:inline-block;height:1px;width:36px'></span>''
           @ '' <span class='toggle'></span><span class='file' style='background: url(''
           @ ''/static/img/hgrid/file.png''
           @ '') no-repeat left top;'></span>&nbsp;''
           @ ''<a href=http://x>a</a>'')
   \<and> TaskNameFormatter (JStr ''a'') (pdf_node\<lparr>ext := JStr ''pd''\<rparr>) =
       Inr (''<span style='display:inline-block;height:1px;width:36px'></span>''
           @ '' <span class='toggle'></span><span class='file' style='background: url(''
           @ ''/static/img/hgrid/file.png''
           @ '') no-repeat left top;'></span>&nbsp;''
           @ ''<a href=http://x>a</a>'')"
proof -
  have ev: "spacer pdf_node = ''<span style='display:inline-block;height:1px;width:36px'></span>''" "link (escape_value ''a'') pdf_node = ''<a href=http://x>a</a>''"
    by (simp_all add: pdf_node_def spacer_def link_def escape_value_def show_int_def show_nat.simps)
  have m: "JStr ''pdf'' \<in> set extensions" "JStr ''xyz'' \<notin> set extensions"
    "JStr ''PDF'' \<notin> set extensions" "JStr ''pd'' \<notin> set extensions"
    by (simp_all add: extensions_def extension_names_def)
  have h: "type pdf_node \<noteq> JStr ''folder''" by (simp add: pdf_node_def)
  have "TaskNameFormatter (JStr ''a'') pdf_node =
       Inr (''<span style='display:inline-block;height:1px;width:36px'></span>''
           @ '' <span class='toggle'></span><span class='file' style='background: url(''
           @ ''/static/img/hgrid/fatcowicons/file_extension_pdf.png''
           @ '') no-repeat left top;'></span>&nbsp;''
            @ ''<a href=http://x>a</a>'')"
    using file_icon_by_extension [OF h, of "''a''"] ev m by (simp add: pdf_node_def)
  moreover have "TaskNameFormatter (JStr ''a'') (pdf_node\<lparr>ext := JStr ''xyz''\<rparr>) =
       Inr (''<span style='display:inline-block;height:1px;width:36px'></span>''
           @ '' <span class='toggle'></span><span class='file' style='background: url(''
           @ ''/static/img/hgrid/file.png''
           @ '') no-repeat left top;'></span>&nbsp;''
           @ ''<a href=http://x>a</a>'')"
    using file_icon_by_extension [of "pdf_node\<lparr>ext := JStr ''xyz''\<rparr>" "''a''"] ev m h
    by (simp add: pdf_node_def spacer_def link_def)
  moreover have "TaskNameFormatter (JStr ''a'') (pdf_node\<lparr>ext := JStr ''PDF''\<rparr>) =
       Inr (''<span style='display:inline-block;height:1px;width:36px'></span>''
           @ '' <span class='toggle'></span><span class='file' style='background: url(''
           @ ''/static/img/hgrid/file.png''
           @ '') no-repeat left top;'></span>&nbsp;''
           @ ''<a href=http://x>a</a>'')"
    using file_icon_by_extension [of "pdf_node\<lparr>ext := JStr ''PDF''\<rparr>" "''a''"] ev m h
    by (simp add: pdf_node_def spacer_def link_def)
  moreover have "TaskNameFormatter (JStr ''a'') (pdf_node\<lparr>ext := JStr ''pd''\<rparr>) =
       Inr (''<span style='display:inline-block;height:1px;width:36px'></span>''
           @ '' <span class='toggle'></span><span class='file' style='background: url(''
           @ ''/static/img/hgrid/file.png''
           @ '') no-repeat left top;'></span>&nbsp;''
           @ ''<a href=http://x>a</a>'')"
    using file_icon_by_extension [of "pdf_node\<lparr>ext := JStr ''pd''\<rparr>" "''a''"] ev m h
    by (simp add: pdf_node_def spacer_def link_def)
  ultimately show ?thesis using h by (intro conjI)
qed

text \<open>
  C6. For a file node whose \<^verbatim>\<open>url\<close> is absent (or is any other value that the test
  \<^verbatim>\<open>if (url)\<close> rejects) the fragment ends with the escaped label as plain text and
  holds no \<^verbatim>\<open><a\<close> anywhere; otherwise the label is wrapped as
  \<^verbatim>\<open><a href=URL>label</a>\<close>.
\<close>

theorem file_label_plain_or_linked:
  assumes "type d \<noteq> JStr ''folder''"
  shows "(\<not> ToBoolean (url d) \<longrightarrow>
            TaskNameFormatter (JStr s) d =
              Inr (spacer d
                  @ '' <span class='toggle'></span><span class='file' style='background: url(''
                  @ imageUrl d
                  @ '') no-repeat left top;'></span>&nbsp;''
                  @ escape_value s)
            \<and> \<not> sublist ''<a'' (spacer d
                @ '' <span class='toggle'></span><span class='file' style='background: url(''
                @ imageUrl d
                @ '') no-repeat left top;'></span>&nbsp;''
                @ escape_value s))
         \<and> (ToBoolean (url d) \<longrightarrow>
            TaskNameFormatter (JStr s) d =
              Inr (spacer d
                  @ '' <span class='toggle'></span><span class='file' style='background: url(''
                  @ imageUrl d
                  @ '') no-repeat left top;'></span>&nbsp;''
                   @ ''<a href='' @ ToString (url d) @ ''>'' @ escape_value s @ ''</a>''))"
proof -
  have "tag_free (spacer d
      @ '' <span class='toggle'></span><span class='file' style='background: url(''
      @ imageUrl d
      @ '') no-repeat left top;'></span>&nbsp;''
      @ escape_value s)"
    by (intro tag_free_append tag_free_spacer tag_free_file_open tag_free_file_close
          tag_free_no_lt imageUrl_no_lt escape_value_no_lt)
  then have "\<not> sublist ''<a'' (spacer d
      @ '' <span class='toggle'></span><span class='file' style='background: url(''
      @ imageUrl d
      @ '') no-repeat left top;'></span>&nbsp;''
      @ escape_value s)"
    by (rule tag_freeD)
  moreover have "\<not> ToBoolean (url d) \<longrightarrow>
      TaskNameFormatter (JStr s) d =
        Inr (spacer d
            @ '' <span class='toggle'></span><span class='file' style='background: url(''
            @ imageUrl d
            @ '') no-repeat left top;'></span>&nbsp;''
            @ escape_value s)"
    using assms by (simp add: file_row link_def)
  moreover have "ToBoolean (url d) \<longrightarrow>
      TaskNameFormatter (JStr s) d =
        Inr (spacer d
            @ '' <span class='toggle'></span><span class='file' style='background: url(''
            @ imageUrl d
            @ '') no-repeat left top;'></span>&nbsp;''
             @ ''<a href='' @ ToString (url d) @ ''>'' @ escape_value s @ ''</a>'')"
    using assms by (simp add: file_row link_def)
  ultimately show ?thesis by blast
qed

theorem file_label_plain_or_linked_witness:
  "type pdf_node \<noteq> JStr ''folder'' \<and> ToBoolean (url pdf_node)
   \<and> \<not> ToBoolean (url (pdf_node\<lparr>url := JUndefined\<rparr>))
   \<and> TaskNameFormatter (JStr ''a<b'') pdf_node =
       Inr (''<span style='display:inline-block;height:1px;width:36px'></span>''
           @ '' <span class='toggle'></span><span class='file' style='background: url(''
           @ ''/static/img/hgrid/fatcowicons/file_extension_pdf.png''
           @ '') no-repeat left top;'></span>&nbsp;''
            @ ''<a href=http://x>'' @ ''a&lt;b'' @ ''</a>'')
   \<and> TaskNameFormatter (JStr ''a<b'') (pdf_node\<lparr>url := JUndefined\<rparr>) =
       Inr (''<span style='display:inline-block;height:1px;width:36px'></span>''
           @ '' <span class='toggle'></span><span class='file' style='background: url(''
           @ ''/static/img/hgrid/fatcowicons/file_extension_pdf.png''
           @ '') no-repeat left top;'></span>&nbsp;''
            @ ''a&lt;b'')
   \<and> \<not> sublist ''<a''
         (''<span style='display:inline-block;height:1px;width:36px'></span>''
             @ '' <span class='toggle'></span><span class='file' style='background: url(''
             @ ''/static/img/hgrid/fatcowicons/file_extension_pdf.png''
             @ '') no-repeat left top;'></span>&nbsp;''
            @ ''a&lt;b'')"
proof -
  have h: "type pdf_node \<noteq> JStr ''folder''" "type (pdf_node\<lparr>url := JUndefined\<rparr>) \<noteq> JStr ''folder''"
    by (simp_all add: pdf_node_def)
  have ev: "spacer pdf_node = ''<span style='display:inline-block;height:1px;width:36px'></span>''" "spacer (pdf_node\<lparr>url := JUndefined\<rparr>) = ''<span style='display:inline-block;height:1px;width:36px'></span>''"
    "imageUrl pdf_node = ''/static/img/hgrid/fatcowicons/file_extension_pdf.png''"
    "imageUrl (pdf_node\<lparr>url := JUndefined\<rparr>) = ''/static/img/hgrid/fatcowicons/file_extension_pdf.png''"
    "escape_value ''a<b'' = ''a&lt;b''"
    by (simp_all add: pdf_node_def spacer_def imageUrl_def indexOf_def extensions_def
          extension_names_def escape_value_def show_int_def show_nat.simps)
  have u: "ToBoolean (url pdf_node)" "\<not> ToBoolean (url (pdf_node\<lparr>url := JUndefined\<rparr>))"
    "ToString (url pdf_node) = ''http://x''"
    by (simp_all add: pdf_node_def)
  from file_label_plain_or_linked [OF h(1), of "''a<b''"] u ev
  have a: "TaskNameFormatter (JStr ''a<b'') pdf_node =
       Inr (''<span style='display:inline-block;height:1px;width:36px'></span>''
           @ '' <span class='toggle'></span><span class='file' style='background: url(''
           @ ''/static/img/hgrid/fatcowicons/file_extension_pdf.png''
           @ '') no-repeat left top;'></span>&nbsp;''
            @ ''<a href=http://x>'' @ ''a&lt;b'' @ ''</a>'')"
    by simp
  from file_label_plain_or_linked [OF h(2), of "''a<b''"] u ev
  have b: "TaskNameFormatter (JStr ''a<b'') (pdf_node\<lparr>url := JUndefined\<rparr>) =
       Inr (''<span style='display:inline-block;height:1px;width:36px'></span>''
           @ '' <span class='toggle'></span><span class='file' style='background: url(''
           @ ''/static/img/hgrid/fatcowicons/file_extension_pdf.png''
           @ '') no-repeat left top;'></span>&nbsp;''
            @ ''a&lt;b'')"
    and c: "\<not> sublist ''<a''
         (''<span style='display:inline-block;height:1px;width:36px'></span>''
             @ '' <span class='toggle'></span><span class='file' style='background: url(''
             @ ''/static/img/hgrid/fatcowicons/file_extension_pdf.png''
             @ '') no-repeat left top;'></span>&nbsp;''
            @ ''a&lt;b'')"
    by simp_all
  show ?thesis by (intro conjI h(1) u(1) u(2) a b c)
qed

text \<open>
  C7. When \<^verbatim>\<open>indent\<close> is a number \<open>n \<ge> 0\<close> (with \<open>18 * n\<close> below \<open>2 ^ 53\<close>, where the
  product of JavaScript numbers is exact) the fragment starts with the spacer, and the
  width written in it is a decimal numeral whose value is \<open>18 * n\<close>.
\<close>

theorem spacer_width_18_indent:
  assumes "indent d = Some n" and "0 \<le> n" and "18 * n < 2 ^ 53"
  shows "\<exists>w rest.
           TaskNameFormatter (JStr s) d = Inr (''<span style='display:inline-block;height:1px;width:''
               @ w
               @ ''px'></span>''
               @ rest)
           \<and> set w \<subseteq> set ''0123456789''
           \<and> int (digits_value w) = 18 * n"
proof -
  let ?w = "show_nat (nat (18 * n))"
  from assms have sp: "spacer d = ''<span style='display:inline-block;height:1px;width:''
      @ ?w
      @ ''px'></span>''"
    by (simp add: spacer_def show_int_def)
  obtain out where out: "TaskNameFormatter (JStr s) d = Inr out"
    using string_returns by blast
  have "\<exists>rest. out = spacer d @ rest"
    using out by (auto simp: TaskNameFormatter_def Let_def split: if_splits)
  then obtain rest where "out = spacer d @ rest" ..
  with out sp have "TaskNameFormatter (JStr s) d = Inr (''<span style='display:inline-block;height:1px;width:''
      @ ?w
      @ ''px'></span>''
      @ rest)"
    by simp
  moreover have "set ?w \<subseteq> set ''0123456789''" by (rule show_nat_digits)
  moreover from assms have "int (digits_value ?w) = 18 * n"
    by (simp add: digits_value_show_nat)
  ultimately show ?thesis by blast
qed

theorem spacer_width_18_indent_witness:
  "indent pdf_node = Some 2 \<and> (0::int) \<le> 2 \<and> (18::int) * 2 < 2 ^ 53
   \<and> (\<exists>w rest.
         TaskNameFormatter (JStr ''a'') pdf_node = Inr (''<span style='display:inline-block;height:1px;width:''
             @ w
             @ ''px'></span>''
             @ rest)
         \<and> set w \<subseteq> set ''0123456789''
         \<and> int (digits_value w) = 18 * 2)"
proof -
  have h: "indent pdf_node = Some 2" by (simp add: pdf_node_def)
  have h2: "(0::int) \<le> 2" "(18::int) * 2 < 2 ^ 53" by simp_all
  from spacer_width_18_indent [OF h h2, of "''a''"] h h2 show ?thesis by blast
qed

text \<open>
  C8. The code does not do what the claim says. At the collapsed, viewable folder of the
  end-to-end example the fragment ends with the label and a closing \<^verbatim>\<open></a>\<close>, and no
  \<^verbatim>\<open><a\<close> occurs in it: the label is not wrapped in an anchor element.
\<close>

theorem collapsed_folder_label_not_wrapped:
  "TaskNameFormatter (JStr ''Docs'') docs_node = Inr (''<span style='display:inline-block;height:1px;width:18px'></span>''
      @ '' <span class='toggle expand nav-filter-item' data-hgrid-nav=7></span></span>''
      @ ''<span class='folder folder-open'></span>&nbsp;Docs</a>'')
   \<and> sublist ''Docs</a>'' (''<span style='display:inline-block;height:1px;width:18px'></span>''
       @ '' <span class='toggle expand nav-filter-item' data-hgrid-nav=7></span></span>''
       @ ''<span class='folder folder-open'></span>&nbsp;Docs</a>'')
   \<and> \<not> sublist ''<a'' (''<span style='display:inline-block;height:1px;width:18px'></span>''
       @ '' <span class='toggle expand nav-filter-item' data-hgrid-nav=7></span></span>''
       @ ''<span class='folder folder-open'></span>&nbsp;Docs</a>'')"
proof -
  have "TaskNameFormatter (JStr ''Docs'') docs_node = Inr (''<span style='display:inline-block;height:1px;width:18px'></span>''
      @ '' <span class='toggle expand nav-filter-item' data-hgrid-nav=7></span></span>''
      @ ''<span class='folder folder-open'></span>&nbsp;Docs</a>'')"
    by (simp add: eval_simps docs_node_def)
  moreover have "sublist ''Docs</a>'' (''<span style='display:inline-block;height:1px;width:18px'></span>''
      @ '' <span class='toggle expand nav-filter-item' data-hgrid-nav=7></span></span>''
      @ ''<span class='folder folder-open'></span>&nbsp;Docs</a>'')"
    by code_simp
  moreover have "\<not> sublist ''<a'' (''<span style='display:inline-block;height:1px;width:18px'></span>''
      @ '' <span class='toggle expand nav-filter-item' data-hgrid-nav=7></span></span>''
      @ ''<span class='folder folder-open'></span>&nbsp;Docs</a>'')"
    by code_simp
  ultimately show ?thesis by (intro conjI)
qed

text \<open>
  The same for every collapsed, viewable folder whose uid holds no \<^verbatim>\<open><\<close>: the fragment
  ends with the escaped label and \<^verbatim>\<open></a>\<close> and never opens an anchor.
\<close>

lemma collapsed_viewable_no_opening_anchor:
  assumes "type d = JStr ''folder''" and "ToBoolean (collapsed d)"
    and "can_view d \<noteq> JStr ''false''" and "CHR ''<'' \<notin> set (ToString (uid d))"
  shows "TaskNameFormatter (JStr s) d =
           Inr (spacer d
               @ '' <span class='toggle expand nav-filter-item' data-hgrid-nav=''
               @ ToString (uid d)
               @ ''></span></span><span class='folder folder-open'></span>&nbsp;''
               @ escape_value s
               @ ''</a>'')
         \<and> \<not> sublist ''<a'' (spacer d
             @ '' <span class='toggle expand nav-filter-item' data-hgrid-nav=''
             @ ToString (uid d)
             @ ''></span></span><span class='folder folder-open'></span>&nbsp;''
             @ escape_value s
             @ ''</a>'')"
proof -
  have "tag_free (spacer d
      @ '' <span class='toggle expand nav-filter-item' data-hgrid-nav=''
      @ ToString (uid d)
      @ ''></span></span><span class='folder folder-open'></span>&nbsp;''
      @ escape_value s
      @ ''</a>'')"
    using assms(4)
    by (intro tag_free_append tag_free_spacer tag_free_expand_open tag_free_expand_close
          tag_free_anchor_close tag_free_no_lt escape_value_no_lt)
  then have "\<not> sublist ''<a'' (spacer d
      @ '' <span class='toggle expand nav-filter-item' data-hgrid-nav=''
      @ ToString (uid d)
      @ ''></span></span><span class='folder folder-open'></span>&nbsp;''
      @ escape_value s
      @ ''</a>'')"
    by (rule tag_freeD)
  with folder_collapsed_viewable [OF assms(1,2,3), of s] show ?thesis by blast
qed

text \<open>
  C9. For a file node the icon URL in the fragment is the generic \<^verbatim>\<open>file.png\<close> or is
  built from an element of \<^verbatim>\<open>extensions\<close>, which \<^verbatim>\<open>ext\<close> then equals; an \<^verbatim>\<open>ext\<close>
  outside the array has no effect on the fragment: any other value outside the array in
  its place gives the same fragment.
\<close>

theorem icon_url_generic_or_known:
  assumes "type d \<noteq> JStr ''folder''"
  shows "(\<exists>u. TaskNameFormatter (JStr s) d =
               Inr (spacer d
                   @ '' <span class='toggle'></span><span class='file' style='background: url(''
                   @ u
                   @ '') no-repeat left top;'></span>&nbsp;''
                   @ link (escape_value s) d)
             \<and> (u = ''/static/img/hgrid/file.png''
                  \<or> (\<exists>e. e \<in> set extension_names \<and> ext d = JStr e \<and> u = ''/static/img/hgrid/fatcowicons/file_extension_''
                      @ e
                      @ ''.png'')))
         \<and> (ext d \<notin> set extensions \<longrightarrow> x \<notin> set extensions \<longrightarrow>
               TaskNameFormatter (JStr s) (d\<lparr>ext := x\<rparr>) = TaskNameFormatter (JStr s) d)"
proof -
  have row: "TaskNameFormatter (JStr s) d =
      Inr (spacer d
          @ '' <span class='toggle'></span><span class='file' style='background: url(''
          @ imageUrl d
          @ '') no-repeat left top;'></span>&nbsp;''
          @ link (escape_value s) d)"
    using assms by (rule file_row)
  have "imageUrl d = ''/static/img/hgrid/file.png''
      \<or> (\<exists>e. e \<in> set extension_names \<and> ext d = JStr e \<and> imageUrl d = ''/static/img/hgrid/fatcowicons/file_extension_''
          @ e
          @ ''.png'')"
  proof (cases "ext d \<in> set extensions")
    case True
    then obtain e where "e \<in> set extension_names" "ext d = JStr e"
      by (auto simp: extensions_def)
    with True show ?thesis by (simp add: imageUrl_cases)
  next
    case False
    then show ?thesis by (simp add: imageUrl_cases)
  qed
  with row have first: "\<exists>u. TaskNameFormatter (JStr s) d =
               Inr (spacer d
                   @ '' <span class='toggle'></span><span class='file' style='background: url(''
                   @ u
                   @ '') no-repeat left top;'></span>&nbsp;''
                   @ link (escape_value s) d)
             \<and> (u = ''/static/img/hgrid/file.png''
                  \<or> (\<exists>e. e \<in> set extension_names \<and> ext d = JStr e \<and> u = ''/static/img/hgrid/fatcowicons/file_extension_''
                      @ e
                      @ ''.png''))"
    by blast
  have "ext d \<notin> set extensions \<longrightarrow> x \<notin> set extensions \<longrightarrow>
      TaskNameFormatter (JStr s) (d\<lparr>ext := x\<rparr>) = TaskNameFormatter (JStr s) d"
    using assms by (simp add: file_row imageUrl_cases spacer_def link_def)
  with first show ?thesis by blast
qed

theorem icon_url_generic_or_known_witness:
  "type (pdf_node\<lparr>ext := JStr ''x) <b''\<rparr>) \<noteq> JStr ''folder''
   \<and> ext (pdf_node\<lparr>ext := JStr ''x) <b''\<rparr>) \<notin> set extensions
   \<and> JUndefined \<notin> set extensions
   \<and> TaskNameFormatter (JStr ''a'') (pdf_node\<lparr>ext := JStr ''x) <b'', ext := JUndefined\<rparr>) =
       TaskNameFormatter (JStr ''a'') (pdf_node\<lparr>ext := JStr ''x) <b''\<rparr>)
   \<and> TaskNameFormatter (JStr ''a'') (pdf_node\<lparr>ext := JStr ''x) <b''\<rparr>) =
       Inr (''<span style='display:inline-block;height:1px;width:36px'></span>''
           @ '' <span class='toggle'></span><span class='file' style='background: url(''
           @ ''/static/img/hgrid/file.png''
           @ '') no-repeat left top;'></span>&nbsp;''
           @ ''<a href=http://x>a</a>'')"
proof -
  let ?d = "pdf_node\<lparr>ext := JStr ''x) <b''\<rparr>"
  have h: "type ?d \<noteq> JStr ''folder''" by (simp add: pdf_node_def)
  have m: "ext ?d \<notin> set extensions" "JUndefined \<notin> set extensions"
    by (simp_all add: extensions_def extension_names_def image_iff)
  have ev: "spacer ?d = ''<span style='display:inline-block;height:1px;width:36px'></span>''" "link (escape_value ''a'') ?d = ''<a href=http://x>a</a>''"
    by (simp_all add: pdf_node_def spacer_def link_def escape_value_def show_int_def show_nat.simps)
  from icon_url_generic_or_known [OF h, of "''a''" JUndefined] m
  have same: "TaskNameFormatter (JStr ''a'') (?d\<lparr>ext := JUndefined\<rparr>) =
       TaskNameFormatter (JStr ''a'') ?d"
    by blast
  from icon_url_generic_or_known [OF h, of "''a''" JUndefined] m
  have "\<exists>u. TaskNameFormatter (JStr ''a'') ?d =
               Inr (spacer ?d
                   @ '' <span class='toggle'></span><span class='file' style='background: url(''
                   @ u
                   @ '') no-repeat left top;'></span>&nbsp;''
                   @ link (escape_value ''a'') ?d)
             \<and> (u = ''/static/img/hgrid/file.png''
                  \<or> (\<exists>e. e \<in> set extension_names \<and> ext ?d = JStr e \<and> u = ''/static/img/hgrid/fatcowicons/file_extension_''
                      @ e
                      @ ''.png''))"
    by blast
  then obtain u where u: "TaskNameFormatter (JStr ''a'') ?d =
               Inr (spacer ?d
                   @ '' <span class='toggle'></span><span class='file' style='background: url(''
                   @ u
                   @ '') no-repeat left top;'></span>&nbsp;''
                   @ link (escape_value ''a'') ?d)"
    and "u = ''/static/img/hgrid/file.png'' \<or> (\<exists>e. e \<in> set extension_names \<and> ext ?d = JStr e \<and> u = ''/static/img/hgrid/fatcowicons/file_extension_''
        @ e
        @ ''.png'')"
    by blast
  with m(1) have "u = ''/static/img/hgrid/file.png''" by (auto simp: extensions_def)
  with u ev have "TaskNameFormatter (JStr ''a'') ?d =
       Inr (''<span style='display:inline-block;height:1px;width:36px'></span>''
           @ '' <span class='toggle'></span><span class='file' style='background: url(''
           @ ''/static/img/hgrid/file.png''
           @ '') no-repeat left top;'></span>&nbsp;''
           @ ''<a href=http://x>a</a>'')"
    by simp
  with h m same show ?thesis by (intro conjI)
qed

text \<open>
  C10. For every folder node, viewable or not, collapsed or not, the fragment holds the
  uid as the value of the \<^verbatim>\<open>data-hgrid-nav\<close> attribute of the toggle, right after the
  spacer.
\<close>

theorem folder_uid_in_nav_attribute:
  assumes "type d = JStr ''folder''"
  shows "\<exists>k post.
           TaskNameFormatter (JStr s) d =
             Inr (spacer d @ '' <span class='toggle'' @ k @ '' nav-filter-item' ''
                  @ ''data-hgrid-nav='' @ ToString (uid d) @ ''>'' @ post)
           \<and> (k = '' expand'' \<or> k = '' collapse'' \<or> k = [])"
proof (cases "ToBoolean (collapsed d)"; cases "can_view d = JStr ''false''")
  assume c: "ToBoolean (collapsed d)" "can_view d = JStr ''false''"
  have "TaskNameFormatter (JStr s) d =
      Inr (spacer d @ '' <span class='toggle'' @ [] @ '' nav-filter-item' ''
           @ ''data-hgrid-nav='' @ ToString (uid d) @ ''>''
               @ ''</span></span><span class='folder folder-delete'></span>&nbsp;Private Component</a>'')"
    using assms c by (simp add: folder_collapsed_private)
  then show ?thesis by blast
next
  assume c: "ToBoolean (collapsed d)" "can_view d \<noteq> JStr ''false''"
  have "TaskNameFormatter (JStr s) d =
      Inr (spacer d @ '' <span class='toggle'' @ '' expand'' @ '' nav-filter-item' ''
           @ ''data-hgrid-nav='' @ ToString (uid d) @ ''>''
           @ (''</span></span><span class='folder folder-open'></span>&nbsp;''
              @ escape_value s @ ''</a>''))"
    using assms c by (simp add: folder_collapsed_viewable)
  then show ?thesis by blast
next
  assume c: "\<not> ToBoolean (collapsed d)" "can_view d = JStr ''false''"
  have "TaskNameFormatter (JStr s) d =
      Inr (spacer d @ '' <span class='toggle'' @ [] @ '' nav-filter-item' ''
           @ ''data-hgrid-nav='' @ ToString (uid d) @ ''>''
           @ ''</span><span class='folder folder-delete'></span>&nbsp;Private Component</a>'')"
    using assms c by (simp add: folder_expanded_private)
  then show ?thesis by blast
next
  assume c: "\<not> ToBoolean (collapsed d)" "can_view d \<noteq> JStr ''false''"
  have "TaskNameFormatter (JStr s) d =
      Inr (spacer d @ '' <span class='toggle'' @ '' collapse'' @ '' nav-filter-item' ''
           @ ''data-hgrid-nav='' @ ToString (uid d) @ ''>''
           @ (''</span><span class='folder folder-close'></span>&nbsp;''
              @ escape_value s @ ''</a>''))"
    using assms c by (simp add: folder_expanded_viewable)
  then show ?thesis by blast
qed

theorem folder_uid_in_nav_attribute_witness:
  "type private_node = JStr ''folder''
   \<and> (\<exists>k post.
         TaskNameFormatter (JStr ''Docs'') private_node =
           Inr (''<span style='display:inline-block;height:1px;width:18px'></span>''
               @ '' <span class='toggle''
               @ k
               @ '' nav-filter-item' ''
                @ ''data-hgrid-nav='' @ ''7'' @ ''>'' @ post)
         \<and> (k = '' expand'' \<or> k = '' collapse'' \<or> k = []))"
proof -
  have h: "type private_node = JStr ''folder''" by (simp add: private_node_def)
  have ev: "spacer private_node = ''<span style='display:inline-block;height:1px;width:18px'></span>''" "ToString (uid private_node) = ''7''"
    by (simp_all add: private_node_def spacer_def show_int_def show_nat.simps)
  from folder_uid_in_nav_attribute [OF h, of "''Docs''"] ev h show ?thesis by simp
qed

end
